theory Spec2Isabelle
  imports Complex_Main "HOL-Library.Finite_Map"
begin

section \<open>The Electrum server interface (lib/interface.py)\<close>

text \<open>
  A shallow embedding of the class \<open>Interface\<close> and of \<open>check_cert\<close>. Every method is a
  function from the object's state to its result and the new state. What a method reads
  from outside the object is an argument of its model: the reading of \<open>time.time()\<close>
  (\<open>now\<close>), the answer of \<open>pipe.idle_time()\<close> (\<open>idle\<close>), whether \<open>pipe.send_all\<close>
  raises (\<open>send_ok\<close>) and the values that successive \<open>pipe.get()\<close> calls deliver (a list).
  Clock readings are Python floats; they are modelled as reals, so rounding in the
  subtraction \<open>now - t\<close> is not part of the model. Diagnostic printing
  (\<open>print\<close>, \<open>print_error\<close>) changes no state and is left out of the session model.
\<close>

subsection \<open>Python values\<close>

text \<open>
  The values a decoded wire message is built from, and the arguments of a request.
  A \<open>dict\<close> with string keys is an association list read with \<open>map_of\<close>.
  Floats are not modelled.
\<close>

datatype pyval =
    PNone
  | PBool bool
  | PInt int
  | PStr string
  | PList "pyval list"
  | PDict "(string \<times> pyval) list"

text \<open>
  Keys of a Python \<open>dict\<close>. \<open>True == 1\<close> and \<open>False == 0\<close> with equal hashes, so a
  boolean is the same key as the integer; lists and dicts are unhashable.
\<close>

datatype pykey = KNone | KInt int | KStr string

fun key_of :: "pyval \<Rightarrow> pykey option" where
  "key_of PNone = Some KNone"
| "key_of (PBool b) = Some (KInt (if b then 1 else 0))"
| "key_of (PInt i) = Some (KInt i)"
| "key_of (PStr s) = Some (KStr s)"
| "key_of (PList xs) = None"
| "key_of (PDict d) = None"

datatype error = TypeError | NameError | AttributeError | ValueError

text \<open>
  How a call ends: it returns a value, raises, or stays suspended in an \<open>await\<close> that
  never completes.
\<close>

datatype 'a outcome = Returns 'a | Raises error | Blocks

subsection \<open>The state of an Interface\<close>

text \<open>
  A request is the tuple \<open>args\<close> that \<open>queue_request\<close> received (method, params, id).
  \<open>request_time\<close> is an attribute that \<open>__init__\<close> does not create: it is \<open>None\<close> until
  \<open>queue_request\<close> assigns it. \<open>unsent_requests\<close> is the priority queue, kept in the order
  in which \<open>get\<close> hands its entries out; \<open>unanswered_requests\<close> is the dict of requests
  sent and not yet answered.
\<close>

type_synonym request = "pyval list"

record interface =
  server :: string
  host :: string
  debug :: bool
  unsent_requests :: "(real \<times> request) list"
  unanswered_requests :: "(pykey, request) fmap"
  last_request :: real
  request_time :: "real option"
  last_ping :: real
  closed_remotely :: bool

text \<open>
  \<open>str.rsplit(':', 2)\<close>: the string is cut at its last two colons (at fewer when it has
  fewer); the pieces are returned from left to right.
\<close>

fun split_first :: "char \<Rightarrow> string \<Rightarrow> (string \<times> string) option" where
  "split_first c [] = None"
| "split_first c (x # xs) =
     (if x = c then Some ([], xs)
      else (case split_first c xs of
              None \<Rightarrow> None
            | Some (a, b) \<Rightarrow> Some (x # a, b)))"

definition rsplit2 :: "char \<Rightarrow> string \<Rightarrow> string list" where
  "rsplit2 c s =
     (case split_first c (rev s) of
        None \<Rightarrow> [s]
      | Some (a, r1) \<Rightarrow>
          (case split_first c r1 of
             None \<Rightarrow> [rev r1, rev a]
           | Some (b, r2) \<Rightarrow> [rev r2, rev b, rev a]))"

text \<open>
  \<open>__init__\<close>, called when the clock reads \<open>now\<close>. The unpacking
  \<open>self.host, _, _ = server.rsplit(':', 2)\<close> raises \<open>ValueError\<close> unless there are three
  pieces. The socket pipe is outside the model.
\<close>

definition init :: "string \<Rightarrow> real \<Rightarrow> error + interface" where
  "init srv now =
     (case rsplit2 CHR '':'' srv of
        [h, _, _] \<Rightarrow>
          Inr \<lparr> server = srv, host = h, debug = False, unsent_requests = [],
                unanswered_requests = fmempty, last_request = now,
                request_time = None, last_ping = 0, closed_remotely = False \<rparr>
      | _ \<Rightarrow> Inl ValueError)"

subsection \<open>Queueing and sending\<close>

text \<open>
  \<open>PriorityQueue.put\<close>: entries leave the queue by increasing time stamp. For entries
  with equal stamps Python goes on to compare the argument tuples, which decides their
  order and can raise \<open>TypeError\<close> on members that have no order; here such entries
  leave in the order they came and the queue never raises. The sessions evaluated
  below never hold two entries with the same stamp.
\<close>

fun put :: "real \<times> request \<Rightarrow> (real \<times> request) list \<Rightarrow> (real \<times> request) list" where
  "put x [] = [x]"
| "put x (y # ys) = (if fst x < fst y then x # y # ys else y # put x ys)"

definition queue_request :: "real \<Rightarrow> request \<Rightarrow> interface \<Rightarrow> interface" where
  "queue_request now args s =
     s \<lparr> request_time := Some now,
         unsent_requests := put (now, args) (unsent_requests s) \<rparr>"

definition num_requests :: "interface \<Rightarrow> int" where
  "num_requests s =
     (let n = 100 - int (fcard (fmdom (unanswered_requests s)))
      in min n (int (length (unsent_requests s))))"

text \<open>
  \<open>send_request\<close>. \<open>unsent_requests.get()\<close> suspends for ever on an empty queue.
  \<open>make_dict(*request)\<close> raises inside the \<open>try\<close> unless the tuple has three members, and
  \<open>pipe.send_all\<close> raises when \<open>send_ok\<close> is false; the handler then evaluates the
  unbound name \<open>r\<close>, so the call ends with \<open>NameError\<close> and the dequeued entry is gone.
  The assignment \<open>self.unanswered_requests[request[2]] = request\<close> is a plain dict
  store; it raises \<open>TypeError\<close> on an unhashable id.
\<close>

definition send_request :: "bool \<Rightarrow> interface \<Rightarrow> bool outcome \<times> interface" where
  "send_request send_ok s =
     (case unsent_requests s of
        [] \<Rightarrow> (Blocks, s)
      | (prio, request) # rest \<Rightarrow>
          (let s1 = s \<lparr> unsent_requests := rest \<rparr> in
           if length request \<noteq> 3 \<or> \<not> send_ok then (Raises NameError, s1)
           else (case key_of (request ! 2) of
                   None \<Rightarrow> (Raises TypeError, s1)
                 | Some k \<Rightarrow>
                     (Returns True,
                      s1 \<lparr> unanswered_requests :=
                             fmupd k request (unanswered_requests s1) \<rparr>))))"

subsection \<open>Liveness\<close>

definition ping_required :: "real \<Rightarrow> interface \<Rightarrow> bool \<times> interface" where
  "ping_required now s =
     (if now - last_ping s > 60 then (True, s \<lparr> last_ping := now \<rparr>)
      else (False, s))"

text \<open>
  \<open>has_timed_out\<close>: the \<open>and\<close> chain stops at an empty dict, so \<open>request_time\<close> is read
  only when a request is unanswered; reading it before any \<open>queue_request\<close> raises
  \<open>AttributeError\<close>.
\<close>

definition has_timed_out :: "real \<Rightarrow> real \<Rightarrow> interface \<Rightarrow> error + bool" where
  "has_timed_out now idle s =
     (if unanswered_requests s = fmempty then Inr False
      else (case request_time s of
              None \<Rightarrow> Inl AttributeError
            | Some t \<Rightarrow> Inr (now - t > 10 \<and> idle > 10)))"

subsection \<open>Receiving\<close>

text \<open>
  \<open>dict.get(key, default)\<close> and \<open>dict.pop(key, None)\<close>. CPython's \<open>pop\<close> answers the
  default on an empty dict before it hashes the key; on a non-empty dict an unhashable
  key raises \<open>TypeError\<close>.
\<close>

definition dict_get :: "(string \<times> pyval) list \<Rightarrow> string \<Rightarrow> pyval \<Rightarrow> pyval" where
  "dict_get d k dflt = (case map_of d k of None \<Rightarrow> dflt | Some v \<Rightarrow> v)"

definition pop :: "(pykey, request) fmap \<Rightarrow> pyval
                     \<Rightarrow> error + (request option \<times> (pykey, request) fmap)" where
  "pop table wire_id =
     (if table = fmempty then Inr (None, table)
      else (case key_of wire_id of
              None \<Rightarrow> Inl TypeError
            | Some k \<Rightarrow> Inr (fmlookup table k, fmdrop k table)))"

text \<open>Truth value of what \<open>pop\<close> returned: \<open>None\<close> and the empty tuple are false.\<close>

fun truthy :: "request option \<Rightarrow> bool" where
  "truthy None = False"
| "truthy (Some r) = (r \<noteq> [])"


type_synonym response_pair = "request option \<times> pyval option"

text \<open>
  The loop of \<open>get_responses\<close>, run on the values that the coming \<open>pipe.get()\<close> calls
  deliver, with the list \<open>responses\<close> built so far. The result is how the call ends, the
  state it leaves and the values it did not read. When the pipe has nothing more to
  deliver, \<open>pipe.get()\<close> never completes.
\<close>

fun get_responses_loop ::
  "interface \<Rightarrow> pyval list \<Rightarrow> response_pair list
     \<Rightarrow> response_pair list outcome \<times> interface \<times> pyval list" where
  "get_responses_loop s [] responses = (Blocks, s, [])"
| "get_responses_loop s (response # pipe) responses =
     (case response of
        PDict d \<Rightarrow>
          (let wire_id = dict_get d ''id'' PNone in
           if wire_id = PNone
           then get_responses_loop s pipe (responses @ [(None, Some response)])
           else (case pop (unanswered_requests s) wire_id of
                   Inl e \<Rightarrow> (Raises e, s, pipe)
                 | Inr (request, table) \<Rightarrow>
                     (let s1 = s \<lparr> unanswered_requests := table \<rparr> in
                      if truthy request
                      then get_responses_loop s1 pipe (responses @ [(request, Some response)])
                      else (Returns (responses @ [(None, None)]), s1, pipe))))
      | _ \<Rightarrow>
          (Returns (responses @ [(None, None)]),
           (if response = PNone then s \<lparr> closed_remotely := True \<rparr> else s),
           pipe))"

definition get_responses ::
  "interface \<Rightarrow> pyval list \<Rightarrow> response_pair list outcome \<times> interface \<times> pyval list" where
  "get_responses s pipe = get_responses_loop s pipe []"

subsection \<open>Certificates\<close>

text \<open>
  The first argument of \<open>check_cert\<close> is the right operand of \<open>"host: %s\n" % host\<close>.
  A host name is a \<open>str\<close>, which the operator always formats. A tuple is unpacked
  into the format's arguments, so a tuple with other than one member raises
  \<open>TypeError\<close>. (Tuples of strings stand for all tuples; other values are formatted
  through \<open>str()\<close> and are not modelled.)
\<close>

datatype host_arg = Host string | Host_tuple "string list"

fun percent_s :: "string \<Rightarrow> string \<Rightarrow> host_arg \<Rightarrow> error + string" where
  "percent_s pre post (Host h) = Inr (pre @ h @ post)"
| "percent_s pre post (Host_tuple [h]) = Inr (pre @ h @ post)"
| "percent_s pre post (Host_tuple hs) = Inl TypeError"

text \<open>
  \<open>check_cert\<close>. The PEM decoder, the X.509 parser, the date check and the two
  functions that write to standard output (\<open>traceback.print_exc\<close>, \<open>util.print_msg\<close>)
  belong to other modules; they are arguments. The first three return \<open>Inl\<close> for
  whatever they raise; a writer returns \<open>Some e\<close> when it raises \<open>e\<close> and \<open>None\<close> when
  it has written. Both \<open>except:\<close> clauses are bare, so they catch every exception of the
  decoder, the parser and the date check. The writers and the \<open>%\<close> operator are called
  outside any \<open>try\<close>: what they raise reaches the caller. The Python function returns
  \<open>None\<close>; the result here says what it has written.
\<close>

datatype 'e report = Traceback 'e | Message string

definition py_str_bool :: "bool \<Rightarrow> string" where
  "py_str_bool b = (if b then ''True'' else ''False'')"

definition check_cert ::
  "(string \<Rightarrow> string \<Rightarrow> 'e + 'b) \<Rightarrow> ('b \<Rightarrow> 'e + 'x) \<Rightarrow> ('x \<Rightarrow> 'e + unit)
     \<Rightarrow> ('e \<Rightarrow> 'e option) \<Rightarrow> (string \<Rightarrow> 'e option)
     \<Rightarrow> host_arg \<Rightarrow> string \<Rightarrow> (error + 'e) + 'e report" where
  "check_cert dePem X509 check_date print_exc print_msg hst cert =
     (case (case dePem cert ''CERTIFICATE'' of Inl e \<Rightarrow> Inl e | Inr b \<Rightarrow> X509 b) of
        Inl e \<Rightarrow>
          (case print_exc e of
             Some e1 \<Rightarrow> Inl (Inr e1)
           | None \<Rightarrow> Inr (Traceback e))
      | Inr x \<Rightarrow>
          (let expired = (case check_date x of Inl e \<Rightarrow> True | Inr u \<Rightarrow> False) in
           case percent_s ''host: '' [CHR 0x0A] hst of
             Inl err \<Rightarrow> Inl (Inl err)
           | Inr m \<Rightarrow>
               (let m = m @ ''has_expired: '' @ py_str_bool expired @ [CHR 0x0A] in
                case print_msg m of
                  Some e1 \<Rightarrow> Inl (Inr e1)
                | None \<Rightarrow> Inr (Message m))))"

text \<open>
  Stand-ins for the other modules: a decoder that rejects the blob \<open>garbage\<close>, a parser
  that accepts what was decoded, a date check that rejects the certificate \<open>old\<close>, and
  writers that succeed or fail with a broken pipe.
\<close>

definition sample_dePem :: "string \<Rightarrow> string \<Rightarrow> string + string" where
  "sample_dePem cert tag = (if cert = ''garbage'' then Inl ''SyntaxError'' else Inr cert)"

definition sample_X509 :: "string \<Rightarrow> string + string" where
  "sample_X509 b = Inr b"

definition sample_check_date :: "string \<Rightarrow> string + unit" where
  "sample_check_date x = (if x = ''old'' then Inl ''CertificateError'' else Inr ())"

definition writes :: "'a \<Rightarrow> string option" where
  "writes x = None"


subsection \<open>Sequences of calls\<close>

text \<open>
  A caller's history: \<open>queue_request\<close> and \<open>send_request\<close> calls, each with the clock
  reading at which it is made (and, for a send, whether the pipe accepts the write).
  Beside the object's state, \<open>run_call\<close> keeps the reading at which \<open>send_request\<close> last
  returned \<open>True\<close>. The class has no such attribute: this is the spec's
  \<open>last_request_send_time\<close>, recorded by an observer.
\<close>

datatype call = QueueRequest real request | SendRequest real bool

fun run_call :: "interface \<times> real option \<Rightarrow> call \<Rightarrow> interface \<times> real option" where
  "run_call (s, sent) (QueueRequest t args) = (queue_request t args s, sent)"
| "run_call (s, sent) (SendRequest t ok) =
     (case send_request ok s of
        (Returns b, s1) \<Rightarrow> (s1, Some t)
      | (other, s1) \<Rightarrow> (s1, sent))"

definition run_calls :: "call list \<Rightarrow> interface \<Rightarrow> interface \<times> real option" where
  "run_calls cs s = foldl run_call (s, None) cs"

text \<open>
  The timeout test in the spec's words: a request is pending, more than 10 seconds have
  passed since the last request was sent, and the transport has been idle for more
  than 10 seconds.
\<close>

definition has_timed_out_spec :: "real \<Rightarrow> real \<Rightarrow> interface \<Rightarrow> real option \<Rightarrow> bool" where
  "has_timed_out_spec now idle s sent =
     (unanswered_requests s \<noteq> fmempty
      \<and> (case sent of None \<Rightarrow> False | Some t \<Rightarrow> now - t > 10)
      \<and> idle > 10)"

text \<open>\<open>flood n\<close>: queue a request with id \<open>i\<close> and send it, for \<open>i = 0, ..., n - 1\<close>.\<close>

fun flood :: "nat \<Rightarrow> interface \<Rightarrow> interface" where
  "flood 0 s = s"
| "flood (Suc n) s =
     snd (send_request True
            (queue_request (real n) [PStr ''server.version'', PList [], PInt (int n)]
               (flood n s)))"

text \<open>
  What \<open>send_request\<close> maintains: every unanswered request is a 3-tuple stored under
  the key of its third member.
\<close>

definition pending_ok :: "interface \<Rightarrow> bool" where
  "pending_ok s =
     fmpred (\<lambda>k r. length r = 3 \<and> key_of (r ! 2) = Some k) (unanswered_requests s)"

text \<open>The result of a call of \<open>get_responses\<close> with further pairs in front of its list.\<close>

fun with_prefix ::
  "response_pair list \<Rightarrow> response_pair list outcome \<times> interface \<times> pyval list
     \<Rightarrow> response_pair list outcome \<times> interface \<times> pyval list" where
  "with_prefix pre (Returns rs, s, pipe) = (Returns (pre @ rs), s, pipe)"
| "with_prefix pre (Raises e, s, pipe) = (Raises e, s, pipe)"
| "with_prefix pre (Blocks, s, pipe) = (Blocks, s, pipe)"

subsection \<open>Any sequence of method calls\<close>





subsection \<open>Concrete sessions\<close>

text \<open>
  The spec's example: request 7 has been sent and is unanswered; the server answers it
  with \<open>{"id": 7, "result": 1}\<close>.
\<close>

definition request_7 :: request where
  "request_7 = [PStr ''blockchain.headers.subscribe'', PList [], PInt 7]"

definition request_7b :: request where
  "request_7b = [PStr ''server.banner'', PList [], PInt 7]"

definition request_8 :: request where
  "request_8 = [PStr ''server.version'', PList [], PInt 8]"

definition answer_7 :: "(string \<times> pyval) list" where
  "answer_7 = [(''id'', PInt 7), (''result'', PInt 1)]"

definition answer_8 :: "(string \<times> pyval) list" where
  "answer_8 = [(''id'', PInt 8), (''result'', PInt 0)]"


definition fresh_session :: interface where
  "fresh_session =
     \<lparr> server = ''electrum.example:50002:s'', host = ''electrum.example'', debug = False,
       unsent_requests = [], unanswered_requests = fmempty,
       last_request = 1700000000, request_time = None, last_ping = 0,
       closed_remotely = False \<rparr>"

definition session_7 :: interface where
  "session_7 =
     \<lparr> server = ''electrum.example:50002:s'', host = ''electrum.example'', debug = False,
       unsent_requests = [], unanswered_requests = fmupd (KInt 7) request_7 fmempty,
       last_request = 0, request_time = Some 0, last_ping = 0, closed_remotely = False \<rparr>"


section \<open>Properties\<close>

subsection \<open>Helper facts\<close>

lemma dict_get_Some: "map_of d k = Some v \<Longrightarrow> dict_get d k dflt = v"
  by (simp add: dict_get_def)


lemma pop_found:
  assumes "fmlookup table k = Some r" and "key_of wid = Some k"
  shows "pop table wid = Inr (Some r, fmdrop k table)"
proof -
  from assms(1) have "table \<noteq> fmempty" by auto
  with assms show ?thesis by (simp add: pop_def)
qed

lemma pop_missing:
  assumes "fmlookup table k = None" and "key_of wid = Some k"
  shows "pop table wid = Inr (None, table)"
  using assms by (simp add: pop_def fmdrop_idle fmdom_notI)

lemma pending_ok_truthy:
  "pending_ok s \<Longrightarrow> fmlookup (unanswered_requests s) k = Some r \<Longrightarrow> truthy (Some r)"
  by (auto simp: pending_ok_def dest!: fmpredD)

lemma pending_ok_session_7: "pending_ok session_7"
  by (auto simp: pending_ok_def session_7_def request_7_def intro!: fmpred_upd)

text \<open>
  Pairs already collected are never touched again: a call that starts with \<open>pre @ acc\<close>
  ends like the call that starts with \<open>acc\<close>, with \<open>pre\<close> in front of its list.
\<close>

lemma loop_prefix:
  "get_responses_loop s pipe (pre @ acc) = with_prefix pre (get_responses_loop s pipe acc)"
proof (induction s pipe acc rule: get_responses_loop.induct)
  case (1 s responses)
  show ?case by simp
next
  case (2 s response pipe responses)
  show ?case
  proof (cases response)
    case (PDict d)
    show ?thesis
    proof (cases "dict_get d ''id'' PNone = PNone")
      case True
      with PDict 2(1)[OF PDict refl True] show ?thesis by simp
    next
      case False
      show ?thesis
      proof (cases "pop (unanswered_requests s) (dict_get d ''id'' PNone)")
        case (Inl e)
        with PDict False show ?thesis by simp
      next
        case (Inr rt)
        obtain request table where rt: "rt = (request, table)" by (cases rt)
        show ?thesis
        proof (cases "truthy request")
          case True
          with PDict False Inr rt 2(2)[OF PDict refl False Inr rt[symmetric] refl True]
          show ?thesis by simp
        next
          case stop: False
          with PDict False Inr rt show ?thesis by simp
        qed
      qed
    qed
  qed simp_all
qed

lemma get_responses_cons:
  assumes "get_responses_loop s (m # pipe) [] = get_responses_loop s1 pipe ([] @ [p])"
  shows "get_responses s (m # pipe) = with_prefix [p] (get_responses s1 pipe)"
proof -
  have "get_responses_loop s1 pipe ([p] @ []) = with_prefix [p] (get_responses_loop s1 pipe [])"
    by (rule loop_prefix)
  with assms show ?thesis by (simp add: get_responses_def)
qed

lemma request_time_loop:
  "request_time (fst (snd (get_responses_loop s pipe acc))) = request_time s"
  by (induction s pipe acc rule: get_responses_loop.induct)
     (auto split: pyval.splits sum.splits prod.splits simp: Let_def)

lemma fcard_fmdom: "fcard (fmdom m) = card (fmdom' m)"
  by (simp add: fmdom'_alt_def fcard.rep_eq)

lemma send_request_ok:
  assumes "unsent_requests s = (prio, [m, p, i]) # rest" and "key_of i = Some k"
  shows "send_request True s =
           (Returns True,
            s \<lparr> unsent_requests := rest,
                unanswered_requests := fmupd k [m, p, i] (unanswered_requests s) \<rparr>)"
  using assms by (simp add: send_request_def)

text \<open>After \<open>flood n\<close> on a fresh session the queue is empty and \<open>n\<close> requests are unanswered.\<close>

lemma flood_state:
  assumes "unsent_requests s = []" and "unanswered_requests s = fmempty"
  shows "unsent_requests (flood n s) = []
       \<and> fmdom' (unanswered_requests (flood n s)) = (\<lambda>i. KInt (int i)) ` {..<n}"
proof (induction n)
  case 0
  with assms show ?case by simp
next
  case (Suc n)
  let ?q = "queue_request (real n) [PStr ''server.version'', PList [], PInt (int n)] (flood n s)"
  from Suc have q: "unsent_requests ?q =
      (real n, [PStr ''server.version'', PList [], PInt (int n)]) # []"
    by (simp add: queue_request_def)
  have k: "key_of (PInt (int n)) = Some (KInt (int n))" by simp
  have u: "unanswered_requests ?q = unanswered_requests (flood n s)"
    by (simp add: queue_request_def)
  show ?case
    using Suc by (simp add: send_request_ok[OF q k] u lessThan_Suc)
qed

lemma flood_count:
  assumes "unsent_requests s = []" and "unanswered_requests s = fmempty"
  shows "num_requests (flood n s) = min (100 - int n) 0"
proof -
  have inj: "inj_on (\<lambda>i. KInt (int i)) {..<n}"
    by (rule inj_onI) simp
  from flood_state[OF assms, of n] inj show ?thesis
    by (simp add: num_requests_def fcard_fmdom card_image)
qed

subsection \<open>The table that the methods maintain\<close>

text \<open>
  \<open>pending_ok\<close> holds of a new session and every method keeps it, so it holds of every
  state that a caller can reach through the methods.
\<close>

lemma pending_ok_init: "init srv t = Inr s \<Longrightarrow> pending_ok s"
  by (auto simp: init_def pending_ok_def split: list.splits)

lemma pending_ok_queue_request: "pending_ok s \<Longrightarrow> pending_ok (queue_request t args s)"
  by (simp add: queue_request_def pending_ok_def)

lemma pending_ok_send_request: "pending_ok s \<Longrightarrow> pending_ok (snd (send_request ok s))"
  by (auto simp: send_request_def pending_ok_def Let_def
           split: list.splits option.splits intro!: fmpred_upd)

lemma pending_ok_ping_required: "pending_ok s \<Longrightarrow> pending_ok (snd (ping_required t s))"
  by (simp add: ping_required_def pending_ok_def)

lemma pending_ok_loop:
  "pending_ok s \<Longrightarrow> pending_ok (fst (snd (get_responses_loop s pipe acc)))"
proof (induction s pipe acc rule: get_responses_loop.induct)
  case (1 s responses)
  then show ?case by simp
next
  case (2 s response pipe responses)
  have drop: "pending_ok (s \<lparr> unanswered_requests := table \<rparr>)"
    if "pop (unanswered_requests s) w = Inr (r, table)" for w r table
    using that "2.prems"
    by (auto simp: pop_def pending_ok_def split: if_splits option.splits intro: fmpred_drop)
  show ?case
  proof (cases response)
    case (PDict d)
    show ?thesis
    proof (cases "dict_get d ''id'' PNone = PNone")
      case True
      with PDict 2(1)[OF PDict refl True] "2.prems" show ?thesis by simp
    next
      case False
      show ?thesis
      proof (cases "pop (unanswered_requests s) (dict_get d ''id'' PNone)")
        case (Inl e)
        with PDict False "2.prems" show ?thesis by simp
      next
        case (Inr rt)
        obtain request table where rt: "rt = (request, table)" by (cases rt)
        note ok = drop[OF Inr[unfolded rt]]
        show ?thesis
        proof (cases "truthy request")
          case True
          with PDict False Inr rt 2(2)[OF PDict refl False Inr rt[symmetric] refl True ok]
          show ?thesis by simp
        next
          case stop: False
          with PDict False Inr rt ok show ?thesis by simp
        qed
      qed
    qed
  qed (use "2.prems" in \<open>simp_all add: pending_ok_def\<close>)
qed

subsection \<open>Collecting responses\<close>

text \<open>
  C1. Let the table of unanswered requests hold \<open>request\<close> under the key of the id that
  the incoming dict message carries (7 in the spec's example). Then the loop appends the
  one pair (request, message) to its list, removes that key from the table and goes
  on reading the pipe; for the whole call, the pair stands in front of whatever the rest
  of the call collects. The table is one that \<open>send_request\<close> built (\<open>pending_ok\<close>).
\<close>

theorem get_responses_answer:
  assumes "pending_ok s"
    and "fmlookup (unanswered_requests s) k = Some request"
    and "map_of d ''id'' = Some wire_id"
    and "wire_id \<noteq> PNone"
    and "key_of wire_id = Some k"
  shows "get_responses_loop s (PDict d # pipe) responses =
           get_responses_loop
             (s \<lparr> unanswered_requests := fmdrop k (unanswered_requests s) \<rparr>) pipe
             (responses @ [(Some request, Some (PDict d))])
       \<and> get_responses s (PDict d # pipe) =
           with_prefix [(Some request, Some (PDict d))]
             (get_responses
                (s \<lparr> unanswered_requests := fmdrop k (unanswered_requests s) \<rparr>) pipe)
       \<and> fmlookup (fmdrop k (unanswered_requests s)) k = None"
proof -
  let ?s1 = "s \<lparr> unanswered_requests := fmdrop k (unanswered_requests s) \<rparr>"
  have t: "truthy (Some request)"
    using assms(1,2) by (rule pending_ok_truthy)
  have step: "get_responses_loop s (PDict d # pipe) rs =
      get_responses_loop ?s1 pipe (rs @ [(Some request, Some (PDict d))])" for rs
    using assms t by (simp add: dict_get_Some pop_found del: truthy.simps)
  from step[of "[]"] have "get_responses s (PDict d # pipe) =
      with_prefix [(Some request, Some (PDict d))] (get_responses ?s1 pipe)"
    by (rule get_responses_cons)
  with step[of responses] show ?thesis by simp
qed

theorem get_responses_answer_witness:
  "pending_ok session_7
   \<and> fmlookup (unanswered_requests session_7) (KInt 7) = Some request_7
   \<and> map_of answer_7 ''id'' = Some (PInt 7)
   \<and> get_responses session_7 [PDict answer_7, PNone] =
       (Returns [(Some request_7, Some (PDict answer_7)), (None, None)],
        session_7 \<lparr> unanswered_requests := fmempty, closed_remotely := True \<rparr>, [])"
proof -
  note a = pending_ok_session_7
  have b: "fmlookup (unanswered_requests session_7) (KInt 7) = Some request_7"
    by (simp add: session_7_def)
  have c: "map_of answer_7 ''id'' = Some (PInt 7)"
    by (simp add: answer_7_def)
  have d: "PInt 7 \<noteq> PNone" by simp
  have e: "key_of (PInt 7) = Some (KInt 7)" by simp
  from get_responses_answer[OF a b c d e, of "[PNone]" "[]"] a b c show ?thesis
    by (simp add: get_responses_def session_7_def fmdrop_fmupd_same)
qed

text \<open>
  For an id that can be a dict key, the loop does what C2 says. Let the incoming dict
  message carry an id (a value other than \<open>None\<close>, hashable) under which the table holds
  nothing. Then the loop appends \<open>(None, None)\<close> and returns at once: the values behind
  the message stay unread, and the state, the table included, is the one before the
  message.
\<close>

theorem get_responses_unknown_id:
  assumes "map_of d ''id'' = Some wire_id"
    and "wire_id \<noteq> PNone"
    and "key_of wire_id = Some k"
    and "fmlookup (unanswered_requests s) k = None"
  shows "get_responses_loop s (PDict d # pipe) responses =
           (Returns (responses @ [(None, None)]), s, pipe)"
  using assms by (simp add: dict_get_Some pop_missing)

theorem get_responses_unknown_id_witness:
  "map_of answer_8 ''id'' = Some (PInt 8)
   \<and> fmlookup (unanswered_requests session_7) (KInt 8) = None
   \<and> get_responses session_7 [PDict answer_8, PDict answer_7] =
       (Returns [(None, None)], session_7, [PDict answer_7])"
proof -
  have a: "map_of answer_8 ''id'' = Some (PInt 8)"
    by (simp add: answer_8_def)
  have b: "PInt 8 \<noteq> PNone" by simp
  have c: "key_of (PInt 8) = Some (KInt 8)" by simp
  have d: "fmlookup (unanswered_requests session_7) (KInt 8) = None"
    by (simp add: session_7_def)
  from get_responses_unknown_id[OF a b c d, of "[PDict answer_7]" "[]"] a d show ?thesis
    by (simp add: get_responses_def)
qed

text \<open>
  An \<open>id\<close> member holding \<open>None\<close> is read as no id at all. A list or dict in the \<open>id\<close>
  member cannot be hashed, so \<open>pop\<close> raises on a non-empty table.
\<close>

lemma get_responses_null_id:
  assumes "map_of d ''id'' = Some PNone"
  shows "get_responses_loop s (PDict d # pipe) responses =
           get_responses_loop s pipe (responses @ [(None, Some (PDict d))])"
  using assms by (simp add: dict_get_Some)

lemma get_responses_unhashable_id:
  assumes "map_of d ''id'' = Some wire_id" and "key_of wire_id = None"
    and "unanswered_requests s \<noteq> fmempty"
  shows "get_responses_loop s (PDict d # pipe) responses = (Raises TypeError, s, pipe)"
proof -
  from assms(2) have "wire_id \<noteq> PNone" by auto
  with assms show ?thesis by (simp add: dict_get_Some pop_def)
qed

text \<open>
  C2. A dict message whose id the table does not hold should end the call with a
  trailing \<open>(None, None)\<close>, as the docstring promises for a misbehaving server. With
  request 7 unanswered, the message \<open>{"id": [7]}\<close> carries an id that is not in the
  table; \<open>self.unanswered_requests.pop(wire_id, None)\<close> raises \<open>TypeError\<close> on the list,
  and \<open>get_responses\<close> returns no list at all.
\<close>

theorem get_responses_list_id_raises:
  "get_responses session_7 [PDict [(''id'', PList [PInt 7])], PDict answer_7]
     = (Raises TypeError, session_7, [PDict answer_7])"
  by (simp add: get_responses_def dict_get_def pop_def session_7_def)





subsection \<open>Keepalive pings\<close>







text \<open>
  C10. \<open>__init__\<close> sets \<open>last_ping\<close> to 0, so on a new session the first
  \<open>ping_required\<close> answers true whatever the clock read at construction (\<open>t0\<close>),
  however soon after it the call comes. The clock is \<open>time.time()\<close>, seconds since
  1970: the call is made at a reading above 60.
\<close>

theorem first_ping_immediate:
  assumes "init srv t0 = Inr s" and "60 < now"
  shows "ping_required now s = (True, s \<lparr> last_ping := now \<rparr>)"
proof -
  from assms(1) have "last_ping s = 0"
    by (auto simp: init_def split: list.splits)
  with assms(2) show ?thesis by (simp add: ping_required_def)
qed

theorem first_ping_immediate_witness:
  "init ''electrum.example:50002:s'' 1700000000 = Inr fresh_session
   \<and> (60::real) < 1700000000
   \<and> ping_required 1700000000 fresh_session
       = (True, fresh_session \<lparr> last_ping := 1700000000 \<rparr>)"
proof -
  have a: "init ''electrum.example:50002:s'' 1700000000 = Inr fresh_session"
    by (simp add: init_def rsplit2_def fresh_session_def)
  have b: "(60::real) < 1700000000" by simp
  from first_ping_immediate[OF a b] a b show ?thesis by simp
qed

subsection \<open>Send admission\<close>

text \<open>
  \<open>num_requests\<close> is the minimum of \<open>100 - len(unanswered_requests)\<close> and the queue's
  size. It is non-negative exactly when at most 100 requests are unanswered.
\<close>

lemma num_requests_allowance:
  "num_requests s =
     min (100 - int (fcard (fmdom (unanswered_requests s)))) (int (length (unsent_requests s)))
   \<and> (0 \<le> num_requests s) = (fcard (fmdom (unanswered_requests s)) \<le> 100)"
  by (auto simp: num_requests_def Let_def)

text \<open>
  C5. \<open>num_requests\<close> should never be negative; its docstring reads "Keep unanswered
  requests below 100". \<open>send_request\<close> computes \<open>n = self.num_requests()\<close> and never
  uses it, so nothing holds a caller back: after 101 requests queued and sent on a new
  session, none answered, \<open>num_requests\<close> is \<open>min(100 - 101, 0) = -1\<close>.
\<close>

theorem num_requests_negative:
  "(case init ''electrum.example:50002:s'' 0 of
      Inl e \<Rightarrow> False
    | Inr s \<Rightarrow> num_requests (flood 101 s) = - 1)"
proof -
  let ?s = "\<lparr> server = ''electrum.example:50002:s'', host = ''electrum.example'',
       debug = False, unsent_requests = [], unanswered_requests = fmempty,
       last_request = 0, request_time = None, last_ping = 0, closed_remotely = False \<rparr>"
  have i: "init ''electrum.example:50002:s'' 0 = Inr ?s"
    by (simp add: init_def rsplit2_def)
  have "num_requests (flood 101 ?s) = min (100 - int 101) 0"
    by (rule flood_count) simp_all
  with i show ?thesis by simp
qed

subsection \<open>Recording a sent request\<close>

text \<open>
  C8, as the code has it. When the request at the head of the queue carries an id under
  which the table already holds a request, \<open>send_request\<close> does not fail: it returns
  \<open>True\<close>, the new request takes the place of the old one, and the table has the same
  ids as before, one entry for each.
\<close>

theorem send_request_replaces:
  assumes "unsent_requests s = (prio, [m, p, i]) # rest"
    and "key_of i = Some k"
    and "fmlookup (unanswered_requests s) k = Some old"
  shows "send_request True s =
           (Returns True,
            s \<lparr> unsent_requests := rest,
                unanswered_requests := fmupd k [m, p, i] (unanswered_requests s) \<rparr>)
       \<and> fmlookup (unanswered_requests (snd (send_request True s))) k = Some [m, p, i]
       \<and> fmdom (unanswered_requests (snd (send_request True s)))
           = fmdom (unanswered_requests s)"
proof -
  from assms(3) have "k |\<in>| fmdom (unanswered_requests s)"
    by (rule fmdomI)
  then have "finsert k (fmdom (unanswered_requests s)) = fmdom (unanswered_requests s)"
    by auto
  with assms(1,2) show ?thesis by (simp add: send_request_def)
qed

theorem send_request_replaces_witness:
  "unsent_requests (queue_request 1 request_7b session_7)
     = (1, [PStr ''server.banner'', PList [], PInt 7]) # []
   \<and> key_of (PInt 7) = Some (KInt 7)
   \<and> fmlookup (unanswered_requests (queue_request 1 request_7b session_7)) (KInt 7)
       = Some request_7
   \<and> fmlookup (unanswered_requests
                 (snd (send_request True (queue_request 1 request_7b session_7)))) (KInt 7)
       = Some request_7b
   \<and> fmdom (unanswered_requests
              (snd (send_request True (queue_request 1 request_7b session_7))))
       = {|KInt 7|}"
proof -
  let ?q = "queue_request 1 request_7b session_7"
  have a: "unsent_requests ?q = (1, [PStr ''server.banner'', PList [], PInt 7]) # []"
    by (simp add: queue_request_def session_7_def request_7b_def)
  have b: "key_of (PInt 7) = Some (KInt 7)" by simp
  have c: "fmlookup (unanswered_requests ?q) (KInt 7) = Some request_7"
    by (simp add: queue_request_def session_7_def)
  have d: "fmdom (unanswered_requests ?q) = {|KInt 7|}"
    by (simp add: queue_request_def session_7_def)
  from send_request_replaces[OF a b c] a b c d show ?thesis
    by (simp add: request_7b_def)
qed

text \<open>
  C8 as stated fails: request 7 is unanswered, a second request with id 7 is queued and
  sent; \<open>send_request\<close> returns \<open>True\<close> and the table holds the second request under 7.
\<close>

theorem send_request_duplicate_id:
  "fmlookup (unanswered_requests session_7) (KInt 7) = Some request_7
   \<and> request_7b \<noteq> request_7
   \<and> send_request True (queue_request 1 request_7b session_7) =
       (Returns True,
        session_7 \<lparr> request_time := Some 1,
                    unanswered_requests := fmupd (KInt 7) request_7b fmempty \<rparr>)"
  by (simp add: session_7_def request_7_def request_7b_def queue_request_def send_request_def)

subsection \<open>Timeout\<close>

text \<open>
  C6, as the code has it. \<open>has_timed_out\<close> is true exactly when a request is unanswered,
  more than 10 seconds have passed since \<open>request_time\<close>, and the pipe has been idle for
  more than 10 seconds. \<open>request_time\<close> is the reading at the latest \<open>queue_request\<close>:
  that method stores it, and \<open>send_request\<close>, \<open>ping_required\<close> and \<open>get_responses\<close> leave
  it alone.
\<close>

theorem has_timed_out_since_queued:
  assumes "request_time s = Some t"
  shows "has_timed_out now idle s =
           Inr (unanswered_requests s \<noteq> fmempty \<and> now - t > 10 \<and> idle > 10)
       \<and> request_time (queue_request t1 args s) = Some t1
       \<and> request_time (snd (send_request ok s)) = Some t
       \<and> request_time (snd (ping_required t1 s)) = Some t
       \<and> request_time (fst (snd (get_responses s pipe))) = Some t"
proof -
  have "request_time (snd (send_request ok s)) = request_time s"
    by (simp add: send_request_def Let_def split: list.splits option.splits)
  moreover have "request_time (snd (ping_required t1 s)) = request_time s"
    by (simp add: ping_required_def)
  moreover have "request_time (fst (snd (get_responses s pipe))) = request_time s"
    unfolding get_responses_def by (rule request_time_loop)
  ultimately show ?thesis
    using assms by (simp add: has_timed_out_def queue_request_def)
qed

theorem has_timed_out_since_queued_witness:
  "request_time session_7 = Some 0
   \<and> has_timed_out 11 11 session_7 = Inr True
   \<and> has_timed_out 10 11 session_7 = Inr False
   \<and> has_timed_out 11 10 session_7 = Inr False
   \<and> has_timed_out 20 20 (session_7 \<lparr> unanswered_requests := fmempty \<rparr>) = Inr False"
proof -
  have a: "request_time session_7 = Some 0" by (simp add: session_7_def)
  have b: "request_time (session_7 \<lparr> unanswered_requests := fmempty \<rparr>) = Some 0"
    by (simp add: session_7_def)
  have ne: "unanswered_requests session_7 \<noteq> fmempty"
    by (simp add: session_7_def)
  from has_timed_out_since_queued[OF a, of 11 11] has_timed_out_since_queued[OF a, of 10 11]
       has_timed_out_since_queued[OF a, of 11 10] has_timed_out_since_queued[OF b, of 20 20]
       a ne
  show ?thesis by simp
qed

text \<open>
  C6 as stated fails. Request 7 is queued at 0 and sent at 1; request 8 is queued at 20
  and not yet sent. At 25, with the pipe idle for 24 seconds, a request is unanswered and
  24 seconds have passed since the last send, yet \<open>has_timed_out\<close> is false: it
  measures from 20, the latest \<open>queue_request\<close>.
\<close>

theorem has_timed_out_not_since_sent:
  "(case init ''electrum.example:50002:s'' 0 of
      Inl e \<Rightarrow> False
    | Inr s0 \<Rightarrow>
        (case run_calls [QueueRequest 0 request_7, SendRequest 1 True,
                         QueueRequest 20 request_8] s0 of
           (s, sent) \<Rightarrow>
             sent = Some 1 \<and> has_timed_out_spec 25 24 s sent
             \<and> has_timed_out 25 24 s = Inr False))"
  by (simp add: init_def rsplit2_def run_calls_def queue_request_def send_request_def
      request_7_def request_8_def has_timed_out_spec_def has_timed_out_def)

subsection \<open>Certificates\<close>




text \<open>A tuple is not a host name: with two members the \<open>%\<close> operator raises.\<close>

lemma check_cert_tuple_raises:
  "check_cert sample_dePem sample_X509 sample_check_date writes writes
       (Host_tuple [''h.example'', ''50002'']) ''fresh'' = Inl (Inl TypeError)"
  by (simp add: check_cert_def sample_dePem_def sample_X509_def sample_check_date_def Let_def)

end
